theory Spec2Isabelle
  imports Main "HOL-Library.Word"
begin

section \<open>The local attachment storage (plugins/local.ts)\<close>

text \<open>
  The class \<open>LocalStorage\<close> is modelled method by method. Every asynchronous method
  becomes a function from the world it runs in to its outcome and the world it leaves:
  a rejected promise or a thrown exception is \<open>Inl\<close> of the error, a resolved promise
  is \<open>Inr\<close> of the value. \<open>Date.now()\<close> is an argument (milliseconds since the epoch),
  and so is the string that \<open>getRandomString(12)\<close> returns.
\<close>

subsection \<open>Errors\<close>

text \<open>
  \<open>BadRequestException\<close> carries its message. \<open>IOError\<close> is an \<open>Error\<close> object raised by
  the file system, by a stream or by the image library, with its message.
  \<open>Message\<close> is a promise rejected with a bare string (\<open>reject(err.message)\<close>).
\<close>

datatype error = BadRequestException string | IOError string | Message string

text \<open>The kinds of the error taxonomy, by the message the code throws for each.\<close>

definition InvalidToken :: error where
  "InvalidToken = BadRequestException ''Invalid token''"

definition TokenExpired :: error where
  "TokenExpired = BadRequestException ''Token has expired''"

definition SizeMismatch :: error where
  "SizeMismatch = BadRequestException ''Size mismatch''"

definition TypeMismatch :: "string \<Rightarrow> error" where
  "TypeMismatch mimetype = BadRequestException (''Not allow upload '' @ mimetype @ '' file'')"

subsection \<open>Data\<close>

type_synonym byte = "8 word"

type_synonym IRespHeaders = "(string \<times> string) list"

text \<open>\<open>ITokenEncryptor\<close>: the payload of a read token; \<open>respHeaders\<close> is optional.\<close>

record ITokenEncryptor =
  expiresDate :: int
  respHeaders :: "IRespHeaders option"

text \<open>
  \<open>IPresignParams\<close>. Its declaration (plugins/types) is not part of the sources at hand;
  a field that JavaScript may find \<open>undefined\<close> is an option here, and the code's
  truthiness tests and \<open>??\<close> are written out on it.
\<close>

record IPresignParams =
  contentType :: "string option"
  contentLength :: "int option"
  hash :: "string option"
  expiresIn :: "int option"

text \<open>The value cached under \<open>attachment:local-signature:\<close> followed by the token, by \<open>presigned\<close>.\<close>

record validateMeta =
  v_expiresDate :: int
  v_contentLength :: "int option"
  v_contentType :: "string option"

text \<open>\<open>ILocalFileUpload\<close>: \<open>mimetype\<close> is the request's content-type header, which may be absent.\<close>

record ILocalFileUpload =
  f_size :: int
  f_mimetype :: "string option"
  f_path :: string

text \<open>The value cached under \<open>attachment:upload:\<close> followed by the token, once an upload is complete.\<close>

record uploadCache =
  u_mimetype :: "string option"
  u_hash :: string
  u_size :: int

record IObjectMeta =
  m_hash :: string
  m_mimetype :: "string option"
  m_size :: int
  m_url :: string
  m_width :: "nat option"
  m_height :: "nat option"

record requestHeaders =
  Content_Type :: "string option"
  Content_Length :: "int option"

record presignResult =
  r_token :: string
  r_path :: string
  r_url :: string
  r_uploadMethod :: string
  r_requestHeaders :: requestHeaders

text \<open>
  The world: the two families of cache entries this class reads and writes (each entry of
  the first with the TTL it was stored with), the files by path, and the paths at which
  the file system refuses a write.
\<close>

record world =
  signature_cache :: "string \<rightharpoonup> validateMeta \<times> int"
  upload_cache :: "string \<rightharpoonup> uploadCache"
  files :: "string \<rightharpoonup> byte list"
  denied :: "string set"

text \<open>
  What the class takes from its configuration and from Node's \<open>path\<close> module:
  \<open>local_path\<close> is \<open>config.local.path\<close>, \<open>storageDir\<close> and \<open>temporaryDir\<close> are the two
  directories the constructor resolves, \<open>tokenExpireIn\<close> is \<open>second(config.tokenExpireIn)\<close>
  in seconds, and \<open>join\<close> and \<open>resolve\<close> are the functions of those names.
\<close>

record env =
  local_path :: string
  storageDir :: string
  temporaryDir :: string
  tokenExpireIn :: int
  join :: "string list \<Rightarrow> string"
  resolve :: "string list \<Rightarrow> string"

subsection \<open>The TTL cache\<close>

text \<open>
  Modelled from the spec: \<open>CacheService\<close> (cache/cache.service) is not among the sources.
  \<open>set(key, value, ttlSeconds)\<close> stores the value with its TTL; \<open>get(key)\<close> returns the
  value or absent. Eviction is the cache's own business and best effort: it is no step of
  this model, so an entry that is still stored is still readable whatever the clock says.
\<close>

definition cacheService_set_signature :: "world \<Rightarrow> string \<Rightarrow> validateMeta \<Rightarrow> int \<Rightarrow> world" where
  "cacheService_set_signature w key v ttl = w\<lparr>signature_cache := (signature_cache w)(key \<mapsto> (v, ttl))\<rparr>"

definition cacheService_get_signature :: "world \<Rightarrow> string \<Rightarrow> validateMeta option" where
  "cacheService_get_signature w key = map_option fst (signature_cache w key)"

definition cacheService_get_upload :: "world \<Rightarrow> string \<Rightarrow> uploadCache option" where
  "cacheService_get_upload w key = upload_cache w key"

subsection \<open>presigned and validateToken\<close>

definition getUploadUrl :: "string \<Rightarrow> string" where
  "getUploadUrl token = ''/api/attachments/upload/'' @ token"

text \<open>\<open>Math.floor(Date.now() / 1000)\<close>: the clock in whole epoch seconds.\<close>

definition epoch_seconds :: "int \<Rightarrow> int" where
  "epoch_seconds now = now div 1000"

text \<open>
  \<open>presigned(_bucket, dir, params)\<close>; \<open>random\<close> is the result of \<open>getRandomString(12)\<close>.
\<close>

definition presigned ::
  "env \<Rightarrow> world \<Rightarrow> int \<Rightarrow> string \<Rightarrow> string \<Rightarrow> string \<Rightarrow> IPresignParams \<Rightarrow> presignResult \<times> world" where
  "presigned e w now random bucket dir params =
     (let token = random;
          filename = (case hash params of Some h \<Rightarrow> h | None \<Rightarrow> token);
          expires_in = (case expiresIn params of Some s \<Rightarrow> s | None \<Rightarrow> tokenExpireIn e);
          w' = cacheService_set_signature w (''attachment:local-signature:'' @ token)
                 \<lparr>v_expiresDate = epoch_seconds now + expires_in,
                  v_contentLength = contentLength params,
                  v_contentType = contentType params\<rparr>
                 expires_in;
          path = join e [dir, filename]
      in (\<lparr>r_token = token, r_path = path, r_url = getUploadUrl token,
           r_uploadMethod = ''PUT'',
           r_requestHeaders = \<lparr>Content_Type = contentType params,
                                Content_Length = contentLength params\<rparr>\<rparr>, w'))"

text \<open>JavaScript truthiness of a number and of a string that may be \<open>undefined\<close>.\<close>

definition truthy_number :: "int option \<Rightarrow> bool" where
  "truthy_number x = (case x of None \<Rightarrow> False | Some n \<Rightarrow> n \<noteq> 0)"

definition truthy_string :: "string option \<Rightarrow> bool" where
  "truthy_string x = (case x of None \<Rightarrow> False | Some s \<Rightarrow> s \<noteq> [])"

text \<open>
  \<open>validateToken(token, file)\<close>. It returns nothing on success; it reads the cache and
  leaves the world as it found it.
\<close>

definition validateToken ::
  "world \<Rightarrow> int \<Rightarrow> string \<Rightarrow> ILocalFileUpload \<Rightarrow> (error + unit) \<times> world" where
  "validateToken w now token file =
     (case cacheService_get_signature w (''attachment:local-signature:'' @ token) of
        None \<Rightarrow> (Inl (BadRequestException ''Invalid token''), w)
      | Some meta \<Rightarrow>
          if epoch_seconds now > v_expiresDate meta
          then (Inl (BadRequestException ''Token has expired''), w)
          else if truthy_number (v_contentLength meta) \<and> v_contentLength meta \<noteq> Some (f_size file)
          then (Inl (BadRequestException ''Size mismatch''), w)
          else if truthy_string (f_mimetype file) \<and> f_mimetype file \<noteq> v_contentType meta
          then (Inl (BadRequestException
                  (''Not allow upload '' @ (case f_mimetype file of Some m \<Rightarrow> m | None \<Rightarrow> []) @ '' file'')), w)
          else (Inr (), w))"

subsection \<open>Read tokens\<close>

definition readPath :: string where
  "readPath = ''/api/attachments/read''"

text \<open>
  \<open>getUrl(bucket, path, params)\<close>. The methods that use the token codec take its
  \<open>encrypt\<close> and \<open>decrypt\<close> as arguments; a codec is modelled further down.
\<close>

definition getUrl ::
  "env \<Rightarrow> (ITokenEncryptor \<Rightarrow> string) \<Rightarrow> string \<Rightarrow> string \<Rightarrow> ITokenEncryptor \<Rightarrow> string" where
  "getUrl e encrypt bucket path params =
     (let token = encrypt params;
          responseContentDisposition =
            (case respHeaders params of None \<Rightarrow> None
             | Some hs \<Rightarrow> map_of hs ''Content-Disposition'')
      in join e [readPath, bucket, path] @ ''?token='' @ token @
         (case responseContentDisposition of
            None \<Rightarrow> []
          | Some d \<Rightarrow> if d \<noteq> [] then ''&response-content-disposition='' @ d else []))"

text \<open>
  \<open>verifyReadToken(token)\<close>: first the body of the \<open>try\<close> block, where \<open>decrypt\<close> may
  throw and the expiry test throws; then the \<open>catch\<close>, which receives whatever the body
  threw and throws \<open>BadRequestException('Invalid token')\<close> in its place.
\<close>

definition verifyReadToken_try ::
  "(string \<Rightarrow> error + ITokenEncryptor) \<Rightarrow> int \<Rightarrow> string \<Rightarrow> error + IRespHeaders option" where
  "verifyReadToken_try decrypt now token =
     (case decrypt token of
        Inl err \<Rightarrow> Inl err
      | Inr payload \<Rightarrow>
          if expiresDate payload > 0 \<and> epoch_seconds now > expiresDate payload
          then Inl (BadRequestException ''Token has expired'')
          else Inr (respHeaders payload))"

definition verifyReadToken ::
  "(string \<Rightarrow> error + ITokenEncryptor) \<Rightarrow> int \<Rightarrow> string \<Rightarrow> error + IRespHeaders option" where
  "verifyReadToken decrypt now token =
     (case verifyReadToken_try decrypt now token of
        Inl err \<Rightarrow> Inl (BadRequestException ''Invalid token'')
      | Inr r \<Rightarrow> Inr r)"

subsection \<open>The file system\<close>

text \<open>
  The calls the class makes into \<open>fs\<close> and \<open>fs-extra\<close>, on the world's files.
  \<open>fse.copy\<close> fails when the source is missing, when source and destination are the same
  path, and when the destination may not be written; it overwrites an existing
  destination. \<open>fse.remove\<close> does nothing when the path is missing, and is taken not
  to fail.
\<close>

definition fse_copy :: "world \<Rightarrow> string \<Rightarrow> string \<Rightarrow> (error + unit) \<times> world" where
  "fse_copy w src dest =
     (case files w src of
        None \<Rightarrow> (Inl (IOError ''ENOENT''), w)
      | Some content \<Rightarrow>
          if src = dest then (Inl (IOError ''Source and destination must not be the same.''), w)
          else if dest \<in> denied w then (Inl (IOError ''EACCES''), w)
          else (Inr (), w\<lparr>files := (files w)(dest \<mapsto> content)\<rparr>))"

definition fse_remove :: "world \<Rightarrow> string \<Rightarrow> world" where
  "fse_remove w p = w\<lparr>files := (files w)(p := None)\<rparr>"

definition fse_writeFile :: "world \<Rightarrow> string \<Rightarrow> byte list \<Rightarrow> (error + unit) \<times> world" where
  "fse_writeFile w p content =
     (if p \<in> denied w then (Inl (IOError ''EACCES''), w)
      else (Inr (), w\<lparr>files := (files w)(p \<mapsto> content)\<rparr>))"

text \<open>\<open>createWriteStream(path)\<close> opens the file for writing: it exists and is empty.\<close>

definition createWriteStream :: "world \<Rightarrow> string \<Rightarrow> world" where
  "createWriteStream w p = w\<lparr>files := (files w)(p \<mapsto> [])\<rparr>"

text \<open>
  A write to the stream appends to the file; once the file has been unlinked the bytes
  reach no path any more.
\<close>

definition fileStream_write :: "world \<Rightarrow> string \<Rightarrow> byte list \<Rightarrow> world" where
  "fileStream_write w p chunk =
     (case files w p of
        None \<Rightarrow> w
      | Some content \<Rightarrow> w\<lparr>files := (files w)(p \<mapsto> content @ chunk)\<rparr>)"

text \<open>\<open>deleteFile(filePath)\<close>: \<open>unlinkSync\<close> if \<open>existsSync\<close>.\<close>

definition deleteFile :: "world \<Rightarrow> string \<Rightarrow> world" where
  "deleteFile w filePath =
     (if files w filePath \<noteq> None then w\<lparr>files := (files w)(filePath := None)\<rparr> else w)"

text \<open>
  Modelled from the spec: \<open>FileUtils.getHash\<close> (utils) is not among the sources. The
  content hash is computed from the bytes actually written at the path; which digest it
  is, is the argument \<open>digest\<close>. A missing file is an error.
\<close>

definition FileUtils_getHash :: "(byte list \<Rightarrow> string) \<Rightarrow> world \<Rightarrow> string \<Rightarrow> error + string" where
  "FileUtils_getHash digest w filePath =
     (case files w filePath of
        None \<Rightarrow> Inl (IOError ''ENOENT'')
      | Some content \<Rightarrow> Inr (digest content))"

subsection \<open>save\<close>

text \<open>\<open>save(filePath, rename)\<close>: copy, then remove the source; a failed copy ends the method.\<close>

definition save :: "env \<Rightarrow> world \<Rightarrow> string \<Rightarrow> string \<Rightarrow> (error + string) \<times> world" where
  "save e w filePath rename =
     (let distPath = resolve e [storageDir e];
          newFilePath = resolve e [distPath, rename]
      in case fse_copy w filePath newFilePath of
           (Inl err, w1) \<Rightarrow> (Inl err, w1)
         | (Inr u, w1) \<Rightarrow> (Inr (join e [local_path e, rename]), fse_remove w1 filePath))"

subsection \<open>saveTemporaryFile\<close>

text \<open>
  What happens to the request while it is received, in order: \<open>data\<close>, \<open>end\<close> and \<open>error\<close>
  events of the request, and \<open>error\<close> events of the file stream.
\<close>

datatype req_event = ReqData "byte list" | ReqEnd | ReqError string | SinkError string

text \<open>A promise is settled once: a later \<open>resolve\<close> or \<open>reject\<close> changes nothing.\<close>

definition settle :: "'a option \<Rightarrow> 'a \<Rightarrow> 'a option" where
  "settle promise r = (case promise of None \<Rightarrow> Some r | Some r0 \<Rightarrow> Some r0)"

text \<open>
  The four handlers, run on the events in order. The state is the world, the local
  \<open>size\<close> and the promise (\<open>None\<close> while it is pending). The handlers go on running
  after the promise is settled, as they do in the source.
\<close>

fun saveTemporaryFile_on ::
  "string \<Rightarrow> string option \<Rightarrow> req_event list \<Rightarrow> world \<Rightarrow> int \<Rightarrow>
   (error + ILocalFileUpload) option \<Rightarrow> (error + ILocalFileUpload) option \<times> world" where
  "saveTemporaryFile_on path mimetype [] w size' promise = (promise, w)"
| "saveTemporaryFile_on path mimetype (ReqData chunk # evs) w size' promise =
     saveTemporaryFile_on path mimetype evs
       (fileStream_write w path chunk) (size' + int (length chunk)) promise"
| "saveTemporaryFile_on path mimetype (ReqEnd # evs) w size' promise =
     saveTemporaryFile_on path mimetype evs w size'
       (settle promise (Inr \<lparr>f_size = size', f_mimetype = mimetype, f_path = path\<rparr>))"
| "saveTemporaryFile_on path mimetype (ReqError msg # evs) w size' promise =
     saveTemporaryFile_on path mimetype evs (deleteFile w path) size'
       (settle promise (Inl (Message msg)))"
| "saveTemporaryFile_on path mimetype (SinkError msg # evs) w size' promise =
     saveTemporaryFile_on path mimetype evs (deleteFile w path) size'
       (settle promise (Inl (Message msg)))"

text \<open>
  \<open>saveTemporaryFile(req)\<close>: \<open>random\<close> is the generated name, \<open>content_type\<close> the
  request's content-type header, \<open>events\<close> what the request goes through. The result is
  \<open>None\<close> when the promise is never settled. The \<open>catch\<close> around the registration of the
  handlers has no branch here: \<open>createWriteStream\<close> on a string path and \<open>on\<close> report
  nothing by throwing.
\<close>

definition saveTemporaryFile ::
  "env \<Rightarrow> world \<Rightarrow> string \<Rightarrow> string option \<Rightarrow> req_event list \<Rightarrow>
   (error + ILocalFileUpload) option \<times> world" where
  "saveTemporaryFile e w random content_type events =
     (let name = random;
          path = resolve e [temporaryDir e, name]
      in saveTemporaryFile_on path content_type events (createWriteStream w path) 0 None)"

subsection \<open>uploadFile\<close>

text \<open>
  The source of an upload: a buffer, or a readable stream that emits its chunks and then
  either \<open>end\<close> or \<open>error\<close>.
\<close>

datatype stream_end = StreamEnd | StreamError string

datatype upload_source = Buffer "byte list" | ReadableStream "byte list list" stream_end

record uploadResult =
  o_hash :: string
  o_path :: string

text \<open>The end of \<open>uploadFile\<close>, after the temporary file is written: hash, then save.\<close>

definition uploadFile_finish ::
  "env \<Rightarrow> (byte list \<Rightarrow> string) \<Rightarrow> world \<Rightarrow> string \<Rightarrow> string \<Rightarrow> string \<Rightarrow>
   (error + uploadResult) \<times> world" where
  "uploadFile_finish e digest w temPath bucket path =
     (case FileUtils_getHash digest w temPath of
        Inl err \<Rightarrow> (Inl err, w)
      | Inr h \<Rightarrow>
          (case save e w temPath (join e [bucket, path]) of
             (Inl err, w1) \<Rightarrow> (Inl err, w1)
           | (Inr p, w1) \<Rightarrow> (Inr \<lparr>o_hash = h, o_path = path\<rparr>, w1)))"

text \<open>
  \<open>uploadFile(bucket, path, stream)\<close>. A stream is piped into a write stream on the
  temporary path, so when it ends or fails the file holds the chunks emitted so far. The
  \<open>error\<close> handler closes the writer, calls \<open>deleteFile(path)\<close> and rejects with the
  stream's error.
\<close>

definition uploadFile ::
  "env \<Rightarrow> (byte list \<Rightarrow> string) \<Rightarrow> world \<Rightarrow> string \<Rightarrow> string \<Rightarrow> string \<Rightarrow> upload_source \<Rightarrow>
   (error + uploadResult) \<times> world" where
  "uploadFile e digest w random bucket path stream =
     (let name = random;
          temPath = resolve e [temporaryDir e, name]
      in case stream of
           Buffer content \<Rightarrow>
             (case fse_writeFile w temPath content of
                (Inl err, w1) \<Rightarrow> (Inl err, w1)
              | (Inr u, w1) \<Rightarrow> uploadFile_finish e digest w1 temPath bucket path)
         | ReadableStream chunks ending \<Rightarrow>
             (let w1 = fileStream_write (createWriteStream w temPath) temPath (concat chunks)
              in case ending of
                   StreamEnd \<Rightarrow> uploadFile_finish e digest w1 temPath bucket path
                 | StreamError msg \<Rightarrow> (Inl (IOError msg), deleteFile w1 path)))"

subsection \<open>getObjectMeta\<close>

text \<open>
  \<open>sharp(path).metadata()\<close> belongs to the image library: \<open>sharp_metadata\<close> is an
  argument, which fails or gives the width and the height it found, each of which may be
  missing.
\<close>

definition getFileMate ::
  "(string \<Rightarrow> error + nat option \<times> nat option) \<Rightarrow> string \<Rightarrow> error + nat option \<times> nat option" where
  "getFileMate sharp_metadata path =
     (case sharp_metadata path of
        Inl err \<Rightarrow> Inl err
      | Inr info \<Rightarrow> Inr (fst info, snd info))"

text \<open>\<open>mimetype?.startsWith('image/')\<close>, which is \<open>undefined\<close>, so falsy, without a mimetype.\<close>

definition startsWith_image :: "string option \<Rightarrow> bool" where
  "startsWith_image mimetype =
     (case mimetype of None \<Rightarrow> False | Some m \<Rightarrow> take 6 m = ''image/'')"

text \<open>
  \<open>getObjectMeta(bucket, path, token)\<close>. The header object \<open>{'Content-Type': mimetype}\<close>
  has no entry when the mimetype is \<open>undefined\<close>.
\<close>

definition getObjectMeta ::
  "env \<Rightarrow> (ITokenEncryptor \<Rightarrow> string) \<Rightarrow> (string \<Rightarrow> error + nat option \<times> nat option) \<Rightarrow>
   world \<Rightarrow> string \<Rightarrow> string \<Rightarrow> string \<Rightarrow> (error + IObjectMeta) \<times> world" where
  "getObjectMeta e encrypt sharp_metadata w bucket path token =
     (case cacheService_get_upload w (''attachment:upload:'' @ token) of
        None \<Rightarrow> (Inl (BadRequestException (''Invalid token: '' @ token)), w)
      | Some uploadCache \<Rightarrow>
          (let meta = \<lparr>m_hash = u_hash uploadCache,
                       m_mimetype = u_mimetype uploadCache,
                       m_size = u_size uploadCache,
                       m_url = getUrl e encrypt bucket path
                                 \<lparr>expiresDate = - 1,
                                  respHeaders = Some (case u_mimetype uploadCache of
                                                        None \<Rightarrow> []
                                                      | Some m \<Rightarrow> [(''Content-Type'', m)])\<rparr>,
                       m_width = None, m_height = None\<rparr>
           in if \<not> startsWith_image (u_mimetype uploadCache) then (Inr meta, w)
              else (case getFileMate sharp_metadata (resolve e [storageDir e, bucket, path]) of
                      Inl err \<Rightarrow> (Inl err, w)
                    | Inr dims \<Rightarrow> (Inr (meta\<lparr>m_width := fst dims, m_height := snd dims\<rparr>), w))))"

subsection \<open>The token codec\<close>

text \<open>
  Modelled from the spec: the class \<open>Encryptor\<close> (utils/encryptor) is not among the
  sources. The spec asks for a symmetric, authenticated codec, keyed by a secret
  configured at construction, that turns the payload (an expiry in epoch seconds and an
  optional mapping of header names to values) into an opaque string, and whose \<open>decrypt\<close>
  recovers the exact payload or fails with \<open>InvalidToken\<close> when the token is malformed
  or fails the integrity check. Here the payload is serialised, an integrity tag
  computed from the secret and the serialised payload is appended, and the result is
  combined character by character with a key stream drawn from the secret. The spec
  names neither the cipher nor the digest: the model fixes the framing of a token, and
  stands in for the cryptography with the simplest keyed functions of that shape.
\<close>

text \<open>Decimal numbers: the digits of a natural number, most significant first.\<close>

definition is_digit :: "char \<Rightarrow> bool" where
  "is_digit c = (48 \<le> (of_char c :: nat) \<and> (of_char c :: nat) \<le> 57)"

definition digit_of :: "char \<Rightarrow> nat" where
  "digit_of c = of_char c - 48"

definition digit_char :: "nat \<Rightarrow> char" where
  "digit_char d = char_of (48 + d)"

function show_nat :: "nat \<Rightarrow> string" where
  "show_nat n = (if n < 10 then [digit_char n] else show_nat (n div 10) @ [digit_char (n mod 10)])"
  by pat_completeness auto
termination
  by (relation "measure id") auto

declare show_nat.simps [simp del]

text \<open>Reading digits for as long as there are any, then a number that has at least one.\<close>

fun read_nat :: "nat \<Rightarrow> string \<Rightarrow> nat \<times> string" where
  "read_nat acc [] = (acc, [])"
| "read_nat acc (c # cs) =
     (if is_digit c then read_nat (10 * acc + digit_of c) cs else (acc, c # cs))"

definition parse_nat :: "string \<Rightarrow> (nat \<times> string) option" where
  "parse_nat s = (case s of [] \<Rightarrow> None | c # cs \<Rightarrow> if is_digit c then Some (read_nat 0 s) else None)"

definition expect :: "char \<Rightarrow> string \<Rightarrow> string option" where
  "expect c s = (case s of [] \<Rightarrow> None | x # r \<Rightarrow> if x = c then Some r else None)"

definition show_int :: "int \<Rightarrow> string" where
  "show_int i = (if i < 0 then CHR ''-'' # show_nat (nat (- i)) else show_nat (nat i))"

definition parse_int :: "string \<Rightarrow> (int \<times> string) option" where
  "parse_int s =
     (case expect CHR ''-'' s of
        Some r \<Rightarrow> map_option (\<lambda>(n, r'). (- int n, r')) (parse_nat r)
      | None \<Rightarrow> map_option (\<lambda>(n, r'). (int n, r')) (parse_nat s))"

definition no_digit_ahead :: "string \<Rightarrow> bool" where
  "no_digit_ahead rest = (case rest of [] \<Rightarrow> True | c # cs \<Rightarrow> \<not> is_digit c)"

text \<open>A string is written as its length, a colon, and its characters.\<close>

definition netstring :: "string \<Rightarrow> string" where
  "netstring s = show_nat (length s) @ CHR '':'' # s"

definition parse_netstring :: "string \<Rightarrow> (string \<times> string) option" where
  "parse_netstring s =
     (case parse_nat s of
        None \<Rightarrow> None
      | Some (n, r) \<Rightarrow>
          (case expect CHR '':'' r of
             None \<Rightarrow> None
           | Some body \<Rightarrow> if n \<le> length body then Some (take n body, drop n body) else None))"

definition show_headers :: "IRespHeaders \<Rightarrow> string" where
  "show_headers hs = concat (map (\<lambda>(k, v). netstring k @ netstring v) hs)"

fun parse_headers :: "nat \<Rightarrow> string \<Rightarrow> (IRespHeaders \<times> string) option" where
  "parse_headers 0 s = Some ([], s)"
| "parse_headers (Suc n) s =
     (case parse_netstring s of
        None \<Rightarrow> None
      | Some (k, r) \<Rightarrow>
          (case parse_netstring r of
             None \<Rightarrow> None
           | Some (v, r') \<Rightarrow>
               (case parse_headers n r' of
                  None \<Rightarrow> None
                | Some (hs, r'') \<Rightarrow> Some ((k, v) # hs, r''))))"

text \<open>
  Modelled from the spec: the payload of a read token as a string. The expiry, a comma,
  then \<open>-\<close> when there are no response headers, or \<open>+\<close>, the number of headers, a colon
  and each name and value. \<open>parse_payload\<close> accepts exactly this, with nothing left over.
\<close>

definition serialise :: "ITokenEncryptor \<Rightarrow> string" where
  "serialise payload =
     show_int (expiresDate payload) @
     (case respHeaders payload of
        None \<Rightarrow> '',-''
      | Some hs \<Rightarrow> '',+'' @ show_nat (length hs) @ CHR '':'' # show_headers hs)"

definition parse_payload :: "string \<Rightarrow> ITokenEncryptor option" where
  "parse_payload s =
     (case parse_int s of
        None \<Rightarrow> None
      | Some (i, r) \<Rightarrow>
          (case expect CHR '','' r of
             None \<Rightarrow> None
           | Some r1 \<Rightarrow>
               if r1 = ''-'' then Some \<lparr>expiresDate = i, respHeaders = None\<rparr>
               else (case expect CHR ''+'' r1 of
                       None \<Rightarrow> None
                     | Some r2 \<Rightarrow>
                         (case parse_nat r2 of
                            None \<Rightarrow> None
                          | Some (n, r3) \<Rightarrow>
                              (case expect CHR '':'' r3 of
                                 None \<Rightarrow> None
                               | Some r4 \<Rightarrow>
                                   (case parse_headers n r4 of
                                      None \<Rightarrow> None
                                    | Some (hs, rest) \<Rightarrow>
                                        if rest = [] then Some \<lparr>expiresDate = i, respHeaders = Some hs\<rparr>
                                        else None))))))"

text \<open>
  Modelled from the spec: the keyed part. Characters are added to the key stream modulo
  256 and subtracted again; the key stream repeats the secret; the tag is the sum of
  the characters of the secret and of the serialised payload.
\<close>

definition add_char :: "char \<Rightarrow> char \<Rightarrow> char" where
  "add_char c k = char_of (of_char c + of_char k :: nat)"

definition sub_char :: "char \<Rightarrow> char \<Rightarrow> char" where
  "sub_char c k = char_of (of_char c + 256 - of_char k :: nat)"

definition keystream :: "string \<Rightarrow> nat \<Rightarrow> string" where
  "keystream key n = take n (concat (replicate n key))"

definition cipher :: "string \<Rightarrow> string \<Rightarrow> string" where
  "cipher key s = map2 add_char s (keystream key (length s))"

definition decipher :: "string \<Rightarrow> string \<Rightarrow> string" where
  "decipher key s = map2 sub_char s (keystream key (length s))"

definition tag :: "string \<Rightarrow> string \<Rightarrow> char" where
  "tag key body = char_of (sum_list (map of_char (key @ body)) :: nat)"

text \<open>
  Modelled from the spec: \<open>encrypt(payload)\<close> and \<open>decrypt(token)\<close> of the codec built
  on the secret \<open>key\<close>. \<open>decrypt\<close> fails with \<open>InvalidToken\<close> on an empty token, on a
  tag that does not match, and on a body that does not parse.
\<close>

definition Encryptor_encrypt :: "string \<Rightarrow> ITokenEncryptor \<Rightarrow> string" where
  "Encryptor_encrypt key payload = (let body = serialise payload in cipher key (body @ [tag key body]))"

definition Encryptor_decrypt :: "string \<Rightarrow> string \<Rightarrow> error + ITokenEncryptor" where
  "Encryptor_decrypt key token =
     (let plain = decipher key token
      in if plain = [] \<or> length plain \<noteq> length token then Inl InvalidToken
         else if last plain \<noteq> tag key (butlast plain) then Inl InvalidToken
         else (case parse_payload (butlast plain) of
                 None \<Rightarrow> Inl InvalidToken
               | Some payload \<Rightarrow> Inr payload))"

subsection \<open>A concrete installation\<close>

text \<open>
  Concrete values on which the properties below are exercised. \<open>join_slash\<close> stands for
  \<open>join\<close> and \<open>resolve\<close> on segments that need no normalisation.
\<close>

definition join_slash :: "string list \<Rightarrow> string" where
  "join_slash segments = foldr (\<lambda>s acc. if acc = [] then s else s @ ''/'' @ acc) segments []"

definition env0 :: env where
  "env0 = \<lparr>local_path = ''.assets'', storageDir = ''/app/.assets'',
           temporaryDir = ''/tmp/.temporary'', tokenExpireIn = 3600,
           join = join_slash, resolve = join_slash\<rparr>"

definition meta0 :: validateMeta where
  "meta0 = \<lparr>v_expiresDate = 1060, v_contentLength = Some 1024, v_contentType = Some ''image/png''\<rparr>"

definition world0 :: world where
  "world0 = \<lparr>signature_cache = [''attachment:local-signature:tok'' \<mapsto> (meta0, 60)],
             upload_cache = [''attachment:upload:up'' \<mapsto>
                               \<lparr>u_mimetype = Some ''image/png'', u_hash = ''abc'', u_size = 3\<rparr>,
                             ''attachment:upload:doc'' \<mapsto>
                               \<lparr>u_mimetype = Some ''text/plain'', u_hash = ''def'', u_size = 7\<rparr>],
             files = [''/tmp/.temporary/t1'' \<mapsto> [1, 2, 3]],
             denied = {''/app/.assets/locked''}\<rparr>"

text \<open>An image library that cannot read any file, and a codec that is not looked into.\<close>

definition sharp_fails :: "string \<Rightarrow> error + nat option \<times> nat option" where
  "sharp_fails p = Inl (IOError ''Input file contains unsupported image format'')"

definition encrypt0 :: "ITokenEncryptor \<Rightarrow> string" where
  "encrypt0 payload = ''opaque''"

section \<open>Properties\<close>

subsection \<open>Read tokens\<close>

lemma verifyReadToken_decrypt_fails:
  "decrypt token = Inl err \<Longrightarrow> verifyReadToken decrypt now token = Inl InvalidToken"
  by (simp add: verifyReadToken_def verifyReadToken_try_def InvalidToken_def)

lemma verifyReadToken_live:
  "decrypt token = Inr payload \<Longrightarrow>
   \<not> (expiresDate payload > 0 \<and> epoch_seconds now > expiresDate payload) \<Longrightarrow>
   verifyReadToken decrypt now token = Inr (respHeaders payload)"
  by (simp add: verifyReadToken_def verifyReadToken_try_def)

lemma verifyReadToken_never_TokenExpired:
  "verifyReadToken decrypt now token \<noteq> Inl TokenExpired"
  by (simp add: verifyReadToken_def TokenExpired_def split: sum.splits)

text \<open>
  C1. The claim: \<open>verifyReadToken\<close> fails with \<open>InvalidToken\<close> when decryption fails, with
  \<open>TokenExpired\<close> when the payload's \<open>expiresDate\<close> is positive and the clock in epoch
  seconds exceeds it, and otherwise returns the embedded response headers. The code
  throws \<open>Token has expired\<close> inside its own \<open>try\<close> block, so the \<open>catch\<close> replaces it:
  for a token that decrypts to \<open>expiresDate = 100\<close>, verified at second 200, the caller
  gets \<open>InvalidToken\<close>, not \<open>TokenExpired\<close>.
\<close>

theorem verifyReadToken_expired_is_InvalidToken:
  "verifyReadToken (\<lambda>t. Inr \<lparr>expiresDate = 100, respHeaders = None\<rparr>) 200000 ''t'' = Inl InvalidToken
   \<and> verifyReadToken (\<lambda>t. Inr \<lparr>expiresDate = 100, respHeaders = None\<rparr>) 200000 ''t'' \<noteq> Inl TokenExpired"
  by (simp add: verifyReadToken_def verifyReadToken_try_def epoch_seconds_def
      InvalidToken_def TokenExpired_def)

subsection \<open>Uploads\<close>

lemma saveTemporaryFile_on_settled:
  "fst (saveTemporaryFile_on path mimetype evs w n (Some r)) = Some r"
proof (induction evs arbitrary: w n)
  case Nil
  show ?case by simp
next
  case (Cons ev evs)
  then show ?case by (cases ev) (simp_all add: settle_def)
qed

lemma deleteFile_gone: "files (deleteFile w p) p = None"
  by (simp add: deleteFile_def)

lemma deleteFile_other: "q \<noteq> p \<Longrightarrow> files (deleteFile w p) q = files w q"
  by (simp add: deleteFile_def)

lemma fileStream_write_gone: "files w p = None \<Longrightarrow> files (fileStream_write w p chunk) p = None"
  by (simp add: fileStream_write_def)

lemma saveTemporaryFile_on_gone:
  "files w path = None \<Longrightarrow>
   files (snd (saveTemporaryFile_on path mimetype evs w n promise)) path = None"
proof (induction evs arbitrary: w n promise)
  case Nil
  then show ?case by simp
next
  case (Cons ev evs)
  then show ?case
    by (cases ev) (simp_all add: fileStream_write_gone deleteFile_def)
qed

text \<open>
  The half of C2 that holds, \<open>saveTemporaryFile\<close>: when the first event that settles the
  promise is an error of the request or of the file stream (only data came before it),
  the promise is rejected with the message of that error and the temporary file is gone,
  whatever events follow.
\<close>

lemma saveTemporaryFile_on_data:
  "saveTemporaryFile_on path mimetype (map ReqData chunks @ evs) w n promise =
   saveTemporaryFile_on path mimetype evs
     (foldl (\<lambda>w c. fileStream_write w path c) w chunks)
     (n + int (length (concat chunks))) promise"
  by (induction chunks arbitrary: w n) (simp_all add: add.assoc)

lemma saveTemporaryFile_error_cleans:
  assumes "ev = ReqError msg \<or> ev = SinkError msg"
  shows "fst (saveTemporaryFile e w random ct (map ReqData chunks @ ev # evs)) = Some (Inl (Message msg))"
    and "files (snd (saveTemporaryFile e w random ct (map ReqData chunks @ ev # evs)))
           (resolve e [temporaryDir e, random]) = None"
proof -
  let ?p = "resolve e [temporaryDir e, random]"
  let ?w = "foldl (\<lambda>w c. fileStream_write w ?p c) (createWriteStream w ?p) chunks"
  have run: "saveTemporaryFile e w random ct (map ReqData chunks @ ev # evs) =
        saveTemporaryFile_on ?p ct evs (deleteFile ?w ?p)
          (int (length (concat chunks))) (Some (Inl (Message msg)))"
    using assms by (auto simp: saveTemporaryFile_def Let_def saveTemporaryFile_on_data settle_def)
  show "fst (saveTemporaryFile e w random ct (map ReqData chunks @ ev # evs)) = Some (Inl (Message msg))"
    unfolding run by (rule saveTemporaryFile_on_settled)
  show "files (snd (saveTemporaryFile e w random ct (map ReqData chunks @ ev # evs))) ?p = None"
    unfolding run by (rule saveTemporaryFile_on_gone) (rule deleteFile_gone)
qed

text \<open>
  The half of C2 that fails, \<open>uploadFile\<close> on a stream: the \<open>error\<close> handler deletes
  \<open>path\<close>, the destination of the object, where the temporary file is \<open>temPath\<close>. Unless
  the two happen to be the same string, the temporary file stays with every byte
  received so far.
\<close>

lemma uploadFile_stream_error:
  assumes "path \<noteq> resolve e [temporaryDir e, random]"
  shows "fst (uploadFile e digest w random bucket path (ReadableStream chunks (StreamError msg)))
           = Inl (IOError msg)"
    and "files (snd (uploadFile e digest w random bucket path (ReadableStream chunks (StreamError msg))))
           (resolve e [temporaryDir e, random]) = Some (concat chunks)"
  using assms
  by (simp_all add: uploadFile_def Let_def deleteFile_def fileStream_write_def createWriteStream_def)

text \<open>
  C2. The claim: when the source stream of an upload emits an error mid-transfer, the
  partially written temporary file is deleted before the operation fails with the
  underlying error, so no byte remains in the temporary directory. In \<open>uploadFile\<close> it
  is not: a stream that emits the chunk \<open>[1, 2, 3]\<close> and then the error \<open>boom\<close>, uploaded
  to \<open>avatars/a.png\<close>, is rejected with \<open>boom\<close> and leaves \<open>/tmp/.temporary/rnd\<close> with
  its three bytes.
\<close>

theorem uploadFile_stream_error_leaves_temporary_file:
  "fst (uploadFile env0 digest world0 ''rnd'' ''avatars'' ''a.png''
          (ReadableStream [[1, 2, 3]] (StreamError ''boom''))) = Inl (IOError ''boom'')
   \<and> files (snd (uploadFile env0 digest world0 ''rnd'' ''avatars'' ''a.png''
          (ReadableStream [[1, 2, 3]] (StreamError ''boom'')))) ''/tmp/.temporary/rnd''
       = Some [1, 2, 3]"
  by (simp add: uploadFile_def Let_def deleteFile_def fileStream_write_def createWriteStream_def
      env0_def world0_def join_slash_def)

subsection \<open>Validation of an upload against its presign\<close>

text \<open>
  C5. Whenever the cached validation entry of a token is still readable and the clock, in
  whole epoch seconds as the code reads it, is strictly after the entry's \<open>expiresDate\<close>,
  \<open>validateToken\<close> fails with \<open>TokenExpired\<close>, whatever the size and the type of the
  uploaded file are: the expiry test comes before the size and type tests, so an entry
  whose expiry has elapsed validates no upload.
\<close>

theorem validateToken_expired:
  assumes "cacheService_get_signature w (''attachment:local-signature:'' @ token) = Some meta"
    and "v_expiresDate meta < epoch_seconds now"
  shows "fst (validateToken w now token file) = Inl TokenExpired
         \<and> fst (validateToken w now token file) \<noteq> Inr ()"
  using assms by (simp add: validateToken_def TokenExpired_def)

theorem validateToken_expired_witness:
  "cacheService_get_signature world0 (''attachment:local-signature:'' @ ''tok'') = Some meta0
   \<and> v_expiresDate meta0 < epoch_seconds 1061000
   \<and> fst (validateToken world0 1061000 ''tok''
        \<lparr>f_size = 1024, f_mimetype = Some ''image/png'', f_path = ''/tmp/.temporary/t1''\<rparr>)
      = Inl TokenExpired"
proof -
  have entry: "cacheService_get_signature world0 (''attachment:local-signature:'' @ ''tok'') = Some meta0"
    by (simp add: cacheService_get_signature_def world0_def)
  have late: "v_expiresDate meta0 < epoch_seconds 1061000"
    by (simp add: meta0_def epoch_seconds_def)
  from validateToken_expired [OF entry late] entry late show ?thesis by blast
qed

text \<open>
  C3, as claimed: a cached, unexpired entry and an uploaded size that differs from the
  presigned \<open>contentLength\<close> give \<open>SizeMismatch\<close> for every \<open>contentLength\<close>, 0 included.
  The size test is guarded by the truthiness of \<open>contentLength\<close>: presigned with
  \<open>contentLength = 0\<close>, an upload of 5 bytes is accepted.
\<close>

theorem validateToken_size_zero_counterexample:
  "cacheService_get_signature
     (world0\<lparr>signature_cache := [''attachment:local-signature:tok'' \<mapsto>
        (\<lparr>v_expiresDate = 1060, v_contentLength = Some 0, v_contentType = Some ''text/plain''\<rparr>, 60)]\<rparr>)
     (''attachment:local-signature:'' @ ''tok'')
     = Some \<lparr>v_expiresDate = 1060, v_contentLength = Some 0, v_contentType = Some ''text/plain''\<rparr>
   \<and> \<not> 1060 < epoch_seconds 1000000
   \<and> (5::int) \<noteq> 0
   \<and> fst (validateToken
        (world0\<lparr>signature_cache := [''attachment:local-signature:tok'' \<mapsto>
           (\<lparr>v_expiresDate = 1060, v_contentLength = Some 0, v_contentType = Some ''text/plain''\<rparr>, 60)]\<rparr>)
        1000000 ''tok''
        \<lparr>f_size = 5, f_mimetype = Some ''text/plain'', f_path = ''/tmp/.temporary/t1''\<rparr>)
      = Inr ()"
  by (simp add: validateToken_def cacheService_get_signature_def epoch_seconds_def
      truthy_number_def truthy_string_def)

text \<open>
  C3, amended: for a cached, unexpired entry whose \<open>contentLength\<close> is present and not
  0, an uploaded size that differs from it gives \<open>SizeMismatch\<close>, and the call leaves
  the world, so every file, as it was: nothing is relocated.
\<close>

theorem validateToken_size_mismatch:
  assumes "cacheService_get_signature w (''attachment:local-signature:'' @ token) = Some meta"
    and "\<not> v_expiresDate meta < epoch_seconds now"
    and "v_contentLength meta = Some n"
    and "n \<noteq> 0"
    and "f_size file \<noteq> n"
  shows "fst (validateToken w now token file) = Inl SizeMismatch
         \<and> snd (validateToken w now token file) = w"
  using assms by (auto simp: validateToken_def SizeMismatch_def truthy_number_def)

theorem validateToken_size_mismatch_witness:
  "cacheService_get_signature world0 (''attachment:local-signature:'' @ ''tok'') = Some meta0
   \<and> \<not> v_expiresDate meta0 < epoch_seconds 1000000
   \<and> v_contentLength meta0 = Some 1024
   \<and> fst (validateToken world0 1000000 ''tok''
        \<lparr>f_size = 1000, f_mimetype = Some ''image/png'', f_path = ''/tmp/.temporary/t1''\<rparr>)
      = Inl SizeMismatch
   \<and> snd (validateToken world0 1000000 ''tok''
        \<lparr>f_size = 1000, f_mimetype = Some ''image/png'', f_path = ''/tmp/.temporary/t1''\<rparr>)
      = world0"
proof -
  let ?file = "\<lparr>f_size = 1000, f_mimetype = Some ''image/png'', f_path = ''/tmp/.temporary/t1''\<rparr>"
  have entry: "cacheService_get_signature world0 (''attachment:local-signature:'' @ ''tok'') = Some meta0"
    by (simp add: cacheService_get_signature_def world0_def)
  have live: "\<not> v_expiresDate meta0 < epoch_seconds 1000000"
    by (simp add: meta0_def epoch_seconds_def)
  have len: "v_contentLength meta0 = Some 1024"
    by (simp add: meta0_def)
  have nz: "(1024::int) \<noteq> 0" by simp
  have differs: "f_size ?file \<noteq> 1024" by simp
  from validateToken_size_mismatch [OF entry live len nz differs] entry live len
  show ?thesis by blast
qed

text \<open>
  C4, as claimed: past the size test, \<open>TypeMismatch\<close> exactly when the cached
  \<open>contentType\<close> is present and differs from the uploaded mimetype. The test is guarded
  by the uploaded mimetype instead: an upload that declares no content type passes
  against a presign for \<open>image/png\<close>.
\<close>

theorem validateToken_type_absent_counterexample:
  "cacheService_get_signature world0 (''attachment:local-signature:'' @ ''tok'') = Some meta0
   \<and> \<not> v_expiresDate meta0 < epoch_seconds 1000000
   \<and> v_contentLength meta0 = Some 1024
   \<and> v_contentType meta0 = Some ''image/png''
   \<and> v_contentType meta0 \<noteq> None
   \<and> fst (validateToken world0 1000000 ''tok''
        \<lparr>f_size = 1024, f_mimetype = None, f_path = ''/tmp/.temporary/t1''\<rparr>)
      = Inr ()"
  by (simp add: validateToken_def cacheService_get_signature_def epoch_seconds_def
      truthy_number_def truthy_string_def world0_def meta0_def)

text \<open>
  C4, amended: for a cached, unexpired entry that passes the size test, \<open>validateToken\<close>
  fails with \<open>TypeMismatch\<close> exactly when the uploaded mimetype is present, not empty,
  and differs from the cached \<open>contentType\<close>; otherwise it succeeds. The test is
  governed by the presence of the uploaded mimetype.
\<close>

theorem validateToken_type_mismatch_iff:
  assumes "cacheService_get_signature w (''attachment:local-signature:'' @ token) = Some meta"
    and "\<not> v_expiresDate meta < epoch_seconds now"
    and "\<not> (truthy_number (v_contentLength meta) \<and> v_contentLength meta \<noteq> Some (f_size file))"
  shows "(fst (validateToken w now token file) = Inl (TypeMismatch m))
           = (f_mimetype file = Some m \<and> m \<noteq> [] \<and> v_contentType meta \<noteq> Some m)
         \<and> (fst (validateToken w now token file) = Inr ())
           = (\<not> (truthy_string (f_mimetype file) \<and> f_mimetype file \<noteq> v_contentType meta))"
  using assms
  by (auto simp: validateToken_def TypeMismatch_def truthy_string_def split: option.splits)

theorem validateToken_type_mismatch_iff_witness:
  "cacheService_get_signature world0 (''attachment:local-signature:'' @ ''tok'') = Some meta0
   \<and> \<not> v_expiresDate meta0 < epoch_seconds 1000000
   \<and> fst (validateToken world0 1000000 ''tok''
        \<lparr>f_size = 1024, f_mimetype = Some ''text/html'', f_path = ''/tmp/.temporary/t1''\<rparr>)
      = Inl (TypeMismatch ''text/html'')"
proof -
  let ?file = "\<lparr>f_size = 1024, f_mimetype = Some ''text/html'', f_path = ''/tmp/.temporary/t1''\<rparr>"
  have entry: "cacheService_get_signature world0 (''attachment:local-signature:'' @ ''tok'') = Some meta0"
    by (simp add: cacheService_get_signature_def world0_def)
  have live: "\<not> v_expiresDate meta0 < epoch_seconds 1000000"
    by (simp add: meta0_def epoch_seconds_def)
  have size_ok: "\<not> (truthy_number (v_contentLength meta0) \<and> v_contentLength meta0 \<noteq> Some (f_size ?file))"
    by (simp add: meta0_def)
  have differs: "f_mimetype ?file = Some ''text/html'' \<and> ''text/html'' \<noteq> [] \<and> v_contentType meta0 \<noteq> Some ''text/html''"
    by (simp add: meta0_def)
  from validateToken_type_mismatch_iff [OF entry live size_ok, of "''text/html''"] differs entry live
  show ?thesis by blast
qed

text \<open>
  Presign and validation together: with the entry that \<open>presigned\<close> stored, an upload
  that arrives after the expiry is refused, and one that arrives in time with the
  declared size and type is accepted.
\<close>

lemma presigned_then_late_upload:
  assumes "epoch_seconds now0 + (case expiresIn params of Some s \<Rightarrow> s | None \<Rightarrow> tokenExpireIn e)
             < epoch_seconds now1"
  shows "fst (validateToken (snd (presigned e w now0 random bucket dir params)) now1 random file)
           = Inl TokenExpired"
  using assms
  by (simp add: validateToken_def presigned_def Let_def TokenExpired_def
      cacheService_set_signature_def cacheService_get_signature_def)

lemma presigned_then_matching_upload:
  assumes "\<not> epoch_seconds now0 + (case expiresIn params of Some s \<Rightarrow> s | None \<Rightarrow> tokenExpireIn e)
             < epoch_seconds now1"
    and "contentLength params = Some (f_size file)"
    and "contentType params = f_mimetype file"
  shows "fst (validateToken (snd (presigned e w now0 random bucket dir params)) now1 random file)
           = Inr ()"
  using assms
  by (simp add: validateToken_def presigned_def Let_def
      cacheService_set_signature_def cacheService_get_signature_def)

subsection \<open>Object metadata\<close>

lemma getObjectMeta_unknown_token:
  "cacheService_get_upload w (''attachment:upload:'' @ token) = None \<Longrightarrow>
   getObjectMeta e encrypt sharp_metadata w bucket path token
     = (Inl (BadRequestException (''Invalid token: '' @ token)), w)"
  by (simp add: getObjectMeta_def)

lemma getObjectMeta_image_probed:
  assumes "cacheService_get_upload w (''attachment:upload:'' @ token) = Some uc"
    and "startsWith_image (u_mimetype uc)"
    and "sharp_metadata (resolve e [storageDir e, bucket, path]) = Inr (width, height)"
  shows "\<exists>url. getObjectMeta e encrypt sharp_metadata w bucket path token
           = (Inr \<lparr>m_hash = u_hash uc, m_mimetype = u_mimetype uc, m_size = u_size uc,
                   m_url = url, m_width = width, m_height = height\<rparr>, w)"
  using assms by (simp add: getObjectMeta_def getFileMate_def Let_def)

text \<open>
  C6, as claimed: a failure of metadata extraction is swallowed, and \<open>getObjectMeta\<close>
  still returns hash, mimetype, size and url. Nothing catches the failure: for the
  cached upload \<open>up\<close> of type \<open>image/png\<close> and an image library that rejects the file,
  \<open>getObjectMeta\<close> fails with the library's error.
\<close>

theorem getObjectMeta_extraction_failure_counterexample:
  "cacheService_get_upload world0 (''attachment:upload:'' @ ''up'')
     = Some \<lparr>u_mimetype = Some ''image/png'', u_hash = ''abc'', u_size = 3\<rparr>
   \<and> sharp_fails (resolve env0 [storageDir env0, ''avatars'', ''a.png''])
     = Inl (IOError ''Input file contains unsupported image format'')
   \<and> fst (getObjectMeta env0 encrypt0 sharp_fails world0 ''avatars'' ''a.png'' ''up'')
     = Inl (IOError ''Input file contains unsupported image format'')"
  by (simp add: getObjectMeta_def getFileMate_def cacheService_get_upload_def
      startsWith_image_def sharp_fails_def world0_def Let_def)

text \<open>
  C6, amended: for an object whose cached mimetype is an image type, a failure of
  metadata extraction is not swallowed: \<open>getObjectMeta\<close> fails with the error of the
  extraction. The failure leaves the world, so the persisted object, as it was. When
  the cached mimetype is absent or no image type, no extraction is attempted and
  \<open>getObjectMeta\<close> returns hash, mimetype, size and url, without width and height.
\<close>

theorem getObjectMeta_extraction_failure_propagates:
  assumes "cacheService_get_upload w (''attachment:upload:'' @ token) = Some uc"
  shows "(startsWith_image (u_mimetype uc)
            \<and> sharp_metadata (resolve e [storageDir e, bucket, path]) = Inl err
          \<longrightarrow> getObjectMeta e encrypt sharp_metadata w bucket path token = (Inl err, w))
       \<and> (\<not> startsWith_image (u_mimetype uc)
          \<longrightarrow> (\<exists>url. getObjectMeta e encrypt sharp_metadata w bucket path token
                 = (Inr \<lparr>m_hash = u_hash uc, m_mimetype = u_mimetype uc, m_size = u_size uc,
                         m_url = url, m_width = None, m_height = None\<rparr>, w)))"
  using assms by (simp add: getObjectMeta_def getFileMate_def Let_def)

theorem getObjectMeta_extraction_failure_propagates_witness:
  "getObjectMeta env0 encrypt0 sharp_fails world0 ''avatars'' ''a.png'' ''up''
     = (Inl (IOError ''Input file contains unsupported image format''), world0)
   \<and> (\<exists>url. getObjectMeta env0 encrypt0 sharp_fails world0 ''notes'' ''a.txt'' ''doc''
         = (Inr \<lparr>m_hash = ''def'', m_mimetype = Some ''text/plain'', m_size = 7,
                 m_url = url, m_width = None, m_height = None\<rparr>, world0))"
proof -
  let ?up = "\<lparr>u_mimetype = Some ''image/png'', u_hash = ''abc'', u_size = 3\<rparr>"
  let ?doc = "\<lparr>u_mimetype = Some ''text/plain'', u_hash = ''def'', u_size = 7\<rparr>"
  have up: "cacheService_get_upload world0 (''attachment:upload:'' @ ''up'') = Some ?up"
    by (simp add: cacheService_get_upload_def world0_def)
  have doc: "cacheService_get_upload world0 (''attachment:upload:'' @ ''doc'') = Some ?doc"
    by (simp add: cacheService_get_upload_def world0_def)
  have image: "startsWith_image (u_mimetype ?up)"
    by (simp add: startsWith_image_def)
  have fails: "sharp_fails (resolve env0 [storageDir env0, ''avatars'', ''a.png''])
                 = Inl (IOError ''Input file contains unsupported image format'')"
    by (simp add: sharp_fails_def)
  have no_image: "\<not> startsWith_image (u_mimetype ?doc)"
    by (simp add: startsWith_image_def)
  have first: "getObjectMeta env0 encrypt0 sharp_fails world0 ''avatars'' ''a.png'' ''up''
     = (Inl (IOError ''Input file contains unsupported image format''), world0)"
    using getObjectMeta_extraction_failure_propagates [OF up, of sharp_fails env0 "''avatars''" "''a.png''"
        "IOError ''Input file contains unsupported image format''" encrypt0] image fails
    by blast
  have second: "\<exists>url. getObjectMeta env0 encrypt0 sharp_fails world0 ''notes'' ''a.txt'' ''doc''
         = (Inr \<lparr>m_hash = ''def'', m_mimetype = Some ''text/plain'', m_size = 7,
                 m_url = url, m_width = None, m_height = None\<rparr>, world0)"
    using getObjectMeta_extraction_failure_propagates [OF doc, of sharp_fails env0 "''notes''" "''a.txt''"
        "IOError ''x''" encrypt0] no_image
    by simp
  from first second show ?thesis by blast
qed

subsection \<open>Relocation\<close>

lemma fse_copy_fails:
  "fst (fse_copy w src dest) = Inl err \<Longrightarrow> fse_copy w src dest = (Inl err, w) \<and> (\<exists>msg. err = IOError msg)"
  by (auto simp: fse_copy_def split: option.splits if_splits)

lemma fse_copy_succeeds:
  "fst (fse_copy w src dest) = Inr () \<Longrightarrow>
   src \<noteq> dest \<and> files w src \<noteq> None
   \<and> fse_copy w src dest = (Inr (), w\<lparr>files := (files w)(dest := files w src)\<rparr>)"
  by (auto simp: fse_copy_def split: option.splits if_splits)

text \<open>
  C7. \<open>save(filePath, rename)\<close>, with \<open>newFilePath\<close> the resolved destination under the
  storage directory: if the copy fails, \<open>save\<close> fails with the I/O error of the copy and
  the world is as before, so the temporary file is where it was; if the copy succeeds,
  \<open>save\<close> returns the joined path, the temporary file is gone, and the destination holds
  the content that the temporary file had.
\<close>

theorem save_copy_then_remove:
  assumes "newFilePath = resolve e [resolve e [storageDir e], rename]"
  shows "(fst (fse_copy w filePath newFilePath) = Inl err \<longrightarrow>
            save e w filePath rename = (Inl err, w) \<and> (\<exists>msg. err = IOError msg))
       \<and> (fst (fse_copy w filePath newFilePath) = Inr () \<longrightarrow>
            fst (save e w filePath rename) = Inr (join e [local_path e, rename])
            \<and> files (snd (save e w filePath rename)) filePath = None
            \<and> files w filePath \<noteq> None
            \<and> files (snd (save e w filePath rename)) newFilePath = files w filePath)"
proof (intro conjI impI)
  assume failed: "fst (fse_copy w filePath newFilePath) = Inl err"
  from fse_copy_fails [OF failed] assms
  show "save e w filePath rename = (Inl err, w)"
    by (simp add: save_def Let_def)
  from fse_copy_fails [OF failed] show "\<exists>msg. err = IOError msg" by blast
next
  assume copied: "fst (fse_copy w filePath newFilePath) = Inr ()"
  note c = fse_copy_succeeds [OF copied]
  from c assms show "fst (save e w filePath rename) = Inr (join e [local_path e, rename])"
    by (simp add: save_def Let_def)
  from c assms show "files (snd (save e w filePath rename)) filePath = None"
    by (simp add: save_def Let_def fse_remove_def)
  from c show "files w filePath \<noteq> None" by blast
  from c assms show "files (snd (save e w filePath rename)) newFilePath = files w filePath"
    by (auto simp: save_def Let_def fse_remove_def)
qed

theorem save_copy_then_remove_witness:
  "''/app/.assets/avatars/a.png'' = resolve env0 [resolve env0 [storageDir env0], ''avatars/a.png'']
   \<and> fst (fse_copy world0 ''/tmp/.temporary/t1'' ''/app/.assets/avatars/a.png'') = Inr ()
   \<and> fst (save env0 world0 ''/tmp/.temporary/t1'' ''avatars/a.png'') = Inr ''.assets/avatars/a.png''
   \<and> files (snd (save env0 world0 ''/tmp/.temporary/t1'' ''avatars/a.png'')) ''/tmp/.temporary/t1'' = None
   \<and> files (snd (save env0 world0 ''/tmp/.temporary/t1'' ''avatars/a.png'')) ''/app/.assets/avatars/a.png''
       = Some [1, 2, 3]
   \<and> ''/app/.assets/locked'' = resolve env0 [resolve env0 [storageDir env0], ''locked'']
   \<and> fst (fse_copy world0 ''/tmp/.temporary/t1'' ''/app/.assets/locked'') = Inl (IOError ''EACCES'')
   \<and> save env0 world0 ''/tmp/.temporary/t1'' ''locked'' = (Inl (IOError ''EACCES''), world0)
   \<and> files world0 ''/tmp/.temporary/t1'' = Some [1, 2, 3]"
proof -
  have dest: "''/app/.assets/avatars/a.png'' = resolve env0 [resolve env0 [storageDir env0], ''avatars/a.png'']"
    by (simp add: env0_def join_slash_def)
  have copied: "fst (fse_copy world0 ''/tmp/.temporary/t1'' ''/app/.assets/avatars/a.png'') = Inr ()"
    by (simp add: fse_copy_def world0_def)
  have locked: "''/app/.assets/locked'' = resolve env0 [resolve env0 [storageDir env0], ''locked'']"
    by (simp add: env0_def join_slash_def)
  have refused: "fst (fse_copy world0 ''/tmp/.temporary/t1'' ''/app/.assets/locked'') = Inl (IOError ''EACCES'')"
    by (simp add: fse_copy_def world0_def)
  have there: "files world0 ''/tmp/.temporary/t1'' = Some [1, 2, 3]"
    by (simp add: world0_def)
  have joined: "join env0 [local_path env0, ''avatars/a.png''] = ''.assets/avatars/a.png''"
    by (simp add: env0_def join_slash_def)
  from save_copy_then_remove [OF dest, of world0 "''/tmp/.temporary/t1''" "IOError ''x''"] copied
  have ok: "fst (save env0 world0 ''/tmp/.temporary/t1'' ''avatars/a.png'') = Inr ''.assets/avatars/a.png''
      \<and> files (snd (save env0 world0 ''/tmp/.temporary/t1'' ''avatars/a.png'')) ''/tmp/.temporary/t1'' = None
      \<and> files (snd (save env0 world0 ''/tmp/.temporary/t1'' ''avatars/a.png'')) ''/app/.assets/avatars/a.png''
          = Some [1, 2, 3]"
    by (simp add: joined there)
  from save_copy_then_remove [OF locked, of world0 "''/tmp/.temporary/t1''" "IOError ''EACCES''"] refused
  have ko: "save env0 world0 ''/tmp/.temporary/t1'' ''locked'' = (Inl (IOError ''EACCES''), world0)"
    by blast
  from dest copied ok locked refused ko there show ?thesis by blast
qed

subsection \<open>Presigning\<close>

text \<open>
  C8. \<open>presigned\<close> returns the generated token, the path \<open>join(dir, hash)\<close> when a hash is
  supplied and \<open>join(dir, token)\<close> when not, the method \<open>PUT\<close> and the declared
  content type and length as request headers; and it leaves in the cache, under the key
  of the token, the entry with \<open>expiresDate\<close> the current epoch second plus \<open>expiresIn\<close>
  (the configured default when none is supplied), the declared length and type, stored
  with TTL \<open>expiresIn\<close>, which \<open>get\<close> then returns.
\<close>

theorem presigned_contract:
  "r_token (fst (presigned e w now random bucket dir params)) = random
   \<and> r_path (fst (presigned e w now random bucket dir params))
       = join e [dir, case hash params of Some h \<Rightarrow> h | None \<Rightarrow> random]
   \<and> r_uploadMethod (fst (presigned e w now random bucket dir params)) = ''PUT''
   \<and> r_requestHeaders (fst (presigned e w now random bucket dir params))
       = \<lparr>Content_Type = contentType params, Content_Length = contentLength params\<rparr>
   \<and> signature_cache (snd (presigned e w now random bucket dir params))
         (''attachment:local-signature:'' @ random)
       = Some (\<lparr>v_expiresDate = epoch_seconds now
                    + (case expiresIn params of Some s \<Rightarrow> s | None \<Rightarrow> tokenExpireIn e),
                 v_contentLength = contentLength params,
                 v_contentType = contentType params\<rparr>,
               case expiresIn params of Some s \<Rightarrow> s | None \<Rightarrow> tokenExpireIn e)
   \<and> cacheService_get_signature (snd (presigned e w now random bucket dir params))
         (''attachment:local-signature:'' @ random)
       = Some \<lparr>v_expiresDate = epoch_seconds now
                    + (case expiresIn params of Some s \<Rightarrow> s | None \<Rightarrow> tokenExpireIn e),
                v_contentLength = contentLength params,
                v_contentType = contentType params\<rparr>"
  by (simp add: presigned_def Let_def cacheService_set_signature_def cacheService_get_signature_def)

text \<open>
  C10. \<open>presigned\<close> does not depend on its bucket: two calls that differ in the bucket
  only give the same result and leave the same world, cache entry included.
\<close>

theorem presigned_ignores_bucket:
  "presigned e w now random bucket1 dir params = presigned e w now random bucket2 dir params"
  by (simp add: presigned_def)

subsection \<open>The token codec\<close>

lemma digit_char_ok: "d < 10 \<Longrightarrow> is_digit (digit_char d) \<and> digit_of (digit_char d) = d"
  by (simp add: is_digit_def digit_of_def digit_char_def)

lemma show_nat_length: "length (show_nat n) = (if n < 10 then 1 else Suc (length (show_nat (n div 10))))"
  by (subst show_nat.simps) simp

lemma read_nat_show_nat:
  "read_nat acc (show_nat n @ rest) = read_nat (acc * 10 ^ length (show_nat n) + n) rest"
proof (induction n arbitrary: acc rest rule: show_nat.induct)
  case (1 n)
  show ?case
  proof (cases "n < 10")
    case True
    then show ?thesis
      by (subst show_nat.simps, subst (2) show_nat.simps) (simp add: digit_char_ok mult.commute)
  next
    case False
    have d: "n mod 10 < 10" by simp
    have "read_nat acc (show_nat n @ rest)
          = read_nat acc (show_nat (n div 10) @ (digit_char (n mod 10) # rest))"
      using False by (subst show_nat.simps) simp
    also have "\<dots> = read_nat (acc * 10 ^ length (show_nat (n div 10)) + n div 10)
                        (digit_char (n mod 10) # rest)"
      using "1.IH" [OF False] by simp
    also have "\<dots> = read_nat (10 * (acc * 10 ^ length (show_nat (n div 10)) + n div 10) + n mod 10) rest"
      using digit_char_ok [OF d] by simp
    also have "10 * (acc * 10 ^ length (show_nat (n div 10)) + n div 10) + n mod 10
               = acc * 10 ^ length (show_nat n) + n"
      using False by (subst (2) show_nat_length) (simp add: algebra_simps)
    finally show ?thesis .
  qed
qed

lemma show_nat_starts_with_digit: "\<exists>c cs. show_nat n = c # cs \<and> is_digit c"
proof (induction n rule: show_nat.induct)
  case (1 n)
  show ?case
  proof (cases "n < 10")
    case True
    then show ?thesis by (subst show_nat.simps) (simp add: digit_char_ok)
  next
    case False
    from "1.IH" [OF False] obtain c cs where "show_nat (n div 10) = c # cs" "is_digit c" by blast
    with False show ?thesis by (subst show_nat.simps) simp
  qed
qed

lemma parse_nat_show_nat:
  assumes "no_digit_ahead rest"
  shows "parse_nat (show_nat n @ rest) = Some (n, rest)"
proof -
  obtain c cs where s: "show_nat n = c # cs" and c: "is_digit c"
    using show_nat_starts_with_digit by blast
  have "read_nat 0 (show_nat n @ rest) = read_nat n rest"
    by (simp add: read_nat_show_nat)
  also have "\<dots> = (n, rest)"
    using assms by (cases rest) (simp_all add: no_digit_ahead_def)
  finally have r: "read_nat 0 (show_nat n @ rest) = (n, rest)" .
  have "parse_nat (show_nat n @ rest) = Some (read_nat 0 (show_nat n @ rest))"
    unfolding parse_nat_def using s c by simp
  with r show ?thesis by simp
qed

lemma parse_int_show_int:
  assumes "no_digit_ahead rest"
  shows "parse_int (show_int i @ rest) = Some (i, rest)"
proof (cases "i < 0")
  case True
  then show ?thesis
    by (simp add: parse_int_def show_int_def expect_def parse_nat_show_nat [OF assms])
next
  case False
  obtain c cs where s: "show_nat (nat i) = c # cs" and c: "is_digit c"
    using show_nat_starts_with_digit by blast
  have "c \<noteq> CHR ''-''" using c by (auto simp: is_digit_def)
  then have "expect CHR ''-'' (show_nat (nat i) @ rest) = None"
    by (simp add: expect_def s)
  with False show ?thesis
    by (simp add: parse_int_def show_int_def parse_nat_show_nat [OF assms])
qed


lemma colon_no_digit: "no_digit_ahead (CHR '':'' # s)" "no_digit_ahead (CHR '','' # s)"
  by (simp_all add: no_digit_ahead_def is_digit_def)

lemma parse_netstring_netstring: "parse_netstring (netstring s @ rest) = Some (s, rest)"
  by (simp add: parse_netstring_def netstring_def parse_nat_show_nat colon_no_digit expect_def)

lemma parse_headers_show_headers:
  "parse_headers (length hs) (show_headers hs @ rest) = Some (hs, rest)"
proof (induction hs)
  case Nil
  show ?case by (simp add: show_headers_def)
next
  case (Cons h hs)
  obtain k v where h: "h = (k, v)" by (cases h)
  have "show_headers (h # hs) @ rest = netstring k @ (netstring v @ (show_headers hs @ rest))"
    by (simp add: show_headers_def h)
  with Cons.IH show ?case
    by (simp add: parse_netstring_netstring h)
qed

lemma parse_payload_serialise: "parse_payload (serialise payload) = Some payload"
proof (cases "respHeaders payload")
  case None
  then show ?thesis
    using parse_int_show_int [of "'',-''" "expiresDate payload"]
    by (simp add: parse_payload_def serialise_def colon_no_digit expect_def)
next
  case (Some hs)
  have "serialise payload
        = show_int (expiresDate payload) @ (CHR '','' # CHR ''+'' # (show_nat (length hs) @ (CHR '':'' # (show_headers hs @ []))))"
    by (simp add: serialise_def Some)
  moreover have "parse_int (show_int (expiresDate payload) @ (CHR '','' # CHR ''+'' # (show_nat (length hs) @ (CHR '':'' # (show_headers hs @ [])))))
      = Some (expiresDate payload, CHR '','' # CHR ''+'' # (show_nat (length hs) @ (CHR '':'' # (show_headers hs @ []))))"
    by (rule parse_int_show_int) (rule colon_no_digit)
  ultimately show ?thesis
    using Some parse_headers_show_headers [of hs "[]"]
    by (simp add: parse_payload_def expect_def parse_nat_show_nat colon_no_digit)
qed

lemma wrap_back:
  fixes a k :: nat
  assumes "a < 256" "k < 256"
  shows "((a + k) mod 256 + 256 - k) mod 256 = a"
proof (cases "a + k < 256")
  case True
  then have "(a + k) mod 256 + 256 - k = a + 256" by simp
  then show ?thesis using assms by simp
next
  case False
  then have "(a + k) mod 256 = a + k - 256"
    using assms by (simp add: le_mod_geq)
  then have "(a + k) mod 256 + 256 - k = a" using False by simp
  then show ?thesis using assms by simp
qed

lemma sub_add_char: "sub_char (add_char c k) k = c"
proof -
  have "((of_char c + of_char k) mod 256 + 256 - of_char k) mod 256 = (of_char c :: nat)"
    by (rule wrap_back) simp_all
  then have "char_of (((of_char c + of_char k) mod 256 + 256 - of_char k) mod 256 :: nat) = c"
    by (simp only: char_of_char)
  then show ?thesis
    by (simp only: sub_char_def add_char_def of_char_of char_of_mod_256)
qed

lemma map2_sub_add:
  "length s \<le> length ks \<Longrightarrow> map2 sub_char (map2 add_char s ks) ks = s"
proof (induction s arbitrary: ks)
  case Nil
  show ?case by simp
next
  case (Cons c s)
  then obtain k ks' where "ks = k # ks'" by (cases ks) auto
  with Cons show ?case by (simp add: sub_add_char)
qed

lemma length_keystream: "key \<noteq> [] \<Longrightarrow> length (keystream key n) = n"
proof -
  assume "key \<noteq> []"
  then have "1 \<le> length key" by (cases key) simp_all
  then have "n * 1 \<le> n * length key" by (rule mult_le_mono2)
  then show ?thesis
    by (simp add: keystream_def length_concat sum_list_replicate)
qed

lemma decipher_cipher: "key \<noteq> [] \<Longrightarrow> decipher key (cipher key s) = s"
  by (simp add: decipher_def cipher_def length_keystream map2_sub_add)

lemma length_cipher: "key \<noteq> [] \<Longrightarrow> length (cipher key s) = length s"
  by (simp add: cipher_def length_keystream)

lemma Encryptor_round_trip_any: "key \<noteq> [] \<Longrightarrow> Encryptor_decrypt key (Encryptor_encrypt key payload) = Inr payload"
  by (simp add: Encryptor_decrypt_def Encryptor_encrypt_def Let_def decipher_cipher length_cipher parse_payload_serialise)

lemma verifyReadToken_of_encrypted:
  assumes "key \<noteq> []"
    and "\<not> (expiresDate payload > 0 \<and> epoch_seconds now > expiresDate payload)"
  shows "verifyReadToken (Encryptor_decrypt key) now (Encryptor_encrypt key payload)
           = Inr (respHeaders payload)"
  using assms by (simp add: verifyReadToken_live Encryptor_round_trip_any)

text \<open>
  C9. For the codec of a configured (non-empty) secret, decrypting the token that
  encrypting a read-access payload produced returns that payload: the same expiry and
  the same response headers, for every expiry and every list of headers.
\<close>

theorem Encryptor_decrypt_encrypt:
  "key \<noteq> [] \<Longrightarrow> Encryptor_decrypt key (Encryptor_encrypt key payload) = Inr payload"
  by (rule Encryptor_round_trip_any)

theorem Encryptor_decrypt_encrypt_witness:
  "''secret'' \<noteq> []
   \<and> Encryptor_decrypt ''secret''
       (Encryptor_encrypt ''secret''
          \<lparr>expiresDate = - 1, respHeaders = Some [(''Content-Type'', ''image/png'')]\<rparr>)
     = Inr \<lparr>expiresDate = - 1, respHeaders = Some [(''Content-Type'', ''image/png'')]\<rparr>"
proof -
  have configured: "''secret'' \<noteq> []" by simp
  from Encryptor_decrypt_encrypt [OF configured] configured show ?thesis by blast
qed


end
